theory Spec2Isabelle
  imports Main "HOL-Library.Sublist" "HOL-Library.AList" "HOL-Library.Char_ord"
    "HOL-Library.List_Lexorder"
begin

section \<open>Python values\<close>

text \<open>
  The script \<^verbatim>\<open>scripts/validate-devcontainers.py\<close> works on the values that
  \<^verbatim>\<open>json.load\<close> returns and on Python strings. A Python string is modelled as a
  \<^typ>\<open>string\<close>, one \<^typ>\<open>char\<close> for one code point (so the model covers the
  code points below 256). A Python dict is an association list in insertion order;
  \<^verbatim>\<open>json.load\<close> never yields a dict with a repeated key. A float is kept as what
  the script can observe of it: whether it is non-zero and the text \<^verbatim>\<open>str\<close>
  gives for it.
\<close>

datatype json =
    JNull
  | JBool bool
  | JInt int
  | JFloat bool string
  | JStr string
  | JArr "json list"
  | JObj "(string \<times> json) list"

type_synonym pydict = "(string \<times> json) list"

text \<open>The exceptions that the script can meet; \<open>OSError\<close> carries the text of the exception.\<close>

datatype py_error = TypeError | AttributeError | KeyError | OSError string

definition bind_err :: "py_error + 'a \<Rightarrow> ('a \<Rightarrow> py_error + 'b) \<Rightarrow> py_error + 'b" where
  "bind_err r f = (case r of Inl e \<Rightarrow> Inl e | Inr x \<Rightarrow> f x)"

text \<open>\<^verbatim>\<open>sub in text\<close> on two strings.\<close>

fun str_contains :: "string \<Rightarrow> string \<Rightarrow> bool" where
  "str_contains sub [] = (sub = [])"
| "str_contains sub (c # cs) = (prefix sub (c # cs) \<or> str_contains sub cs)"

text \<open>Truth value of a value, as \<^verbatim>\<open>not x\<close> and \<^verbatim>\<open>if x:\<close> test it.\<close>

fun py_truthy :: "json \<Rightarrow> bool" where
  "py_truthy JNull = False"
| "py_truthy (JBool b) = b"
| "py_truthy (JInt i) = (i \<noteq> 0)"
| "py_truthy (JFloat nonzero text) = nonzero"
| "py_truthy (JStr s) = (s \<noteq> [])"
| "py_truthy (JArr xs) = (xs \<noteq> [])"
| "py_truthy (JObj kvs) = (kvs \<noteq> [])"

text \<open>\<^verbatim>\<open>key in d\<close> and \<^verbatim>\<open>d.get(key, default)\<close> on a dict.\<close>

definition dict_has :: "pydict \<Rightarrow> string \<Rightarrow> bool" where
  "dict_has d key = (map_of d key \<noteq> None)"

definition dict_get :: "pydict \<Rightarrow> string \<Rightarrow> json \<Rightarrow> json" where
  "dict_get d key dflt = (case map_of d key of None \<Rightarrow> dflt | Some v \<Rightarrow> v)"

text \<open>
  \<^verbatim>\<open>key in x\<close> for a string key and any value: key membership on a dict, element
  equality on a list, substring on a string, \<open>TypeError\<close> on the rest.
\<close>

definition py_in :: "string \<Rightarrow> json \<Rightarrow> py_error + bool" where
  "py_in key x =
     (case x of
        JObj d \<Rightarrow> Inr (dict_has d key)
      | JArr xs \<Rightarrow> Inr (JStr key \<in> set xs)
      | JStr s \<Rightarrow> Inr (str_contains key s)
      | _ \<Rightarrow> Inl TypeError)"

text \<open>\<^verbatim>\<open>x[key]\<close> for a string key: only a dict can be indexed by a string.\<close>

definition py_item :: "json \<Rightarrow> string \<Rightarrow> py_error + json" where
  "py_item x key =
     (case x of
        JObj d \<Rightarrow> (case map_of d key of None \<Rightarrow> Inl KeyError | Some v \<Rightarrow> Inr v)
      | _ \<Rightarrow> Inl TypeError)"

text \<open>\<^verbatim>\<open>s.strip()\<close>: the white space of Python among the code points below 256.\<close>

definition py_isspace :: "char \<Rightarrow> bool" where
  "py_isspace c = (c \<in> set [CHR 0x09, CHR 0x0A, CHR 0x0B, CHR 0x0C, CHR 0x0D, CHR 0x1C,
     CHR 0x1D, CHR 0x1E, CHR 0x1F, CHR 0x20, CHR 0x85, CHR 0xA0])"

definition py_strip :: "string \<Rightarrow> string" where
  "py_strip s = rev (dropWhile py_isspace (rev (dropWhile py_isspace s)))"

text \<open>
  \<^verbatim>\<open>s.upper()\<close> on the code points below 256: the ASCII and the Latin-1 small
  letters go to their capitals, \<^verbatim>\<open>U+00DF\<close> goes to \<^verbatim>\<open>SS\<close>, the rest
  stays. The capitals of \<^verbatim>\<open>U+00B5\<close> and \<^verbatim>\<open>U+00FF\<close> lie beyond the
  code points of the model; these two are left as they are.
\<close>

definition small_letters :: string where
  "small_letters = ''abcdefghijklmnopqrstuvwxyz'' @
     [CHR 0xE0, CHR 0xE1, CHR 0xE2, CHR 0xE3, CHR 0xE4, CHR 0xE5, CHR 0xE6, CHR 0xE7,
      CHR 0xE8, CHR 0xE9, CHR 0xEA, CHR 0xEB, CHR 0xEC, CHR 0xED, CHR 0xEE, CHR 0xEF,
      CHR 0xF0, CHR 0xF1, CHR 0xF2, CHR 0xF3, CHR 0xF4, CHR 0xF5, CHR 0xF6, CHR 0xF8,
      CHR 0xF9, CHR 0xFA, CHR 0xFB, CHR 0xFC, CHR 0xFD, CHR 0xFE]"

definition capital_letters :: string where
  "capital_letters = ''ABCDEFGHIJKLMNOPQRSTUVWXYZ'' @
     [CHR 0xC0, CHR 0xC1, CHR 0xC2, CHR 0xC3, CHR 0xC4, CHR 0xC5, CHR 0xC6, CHR 0xC7,
      CHR 0xC8, CHR 0xC9, CHR 0xCA, CHR 0xCB, CHR 0xCC, CHR 0xCD, CHR 0xCE, CHR 0xCF,
      CHR 0xD0, CHR 0xD1, CHR 0xD2, CHR 0xD3, CHR 0xD4, CHR 0xD5, CHR 0xD6, CHR 0xD8,
      CHR 0xD9, CHR 0xDA, CHR 0xDB, CHR 0xDC, CHR 0xDD, CHR 0xDE]"

definition py_upper :: "string \<Rightarrow> string" where
  "py_upper s = concat (map (\<lambda>c.
     if c = CHR 0xDF then ''SS''
     else case map_of (zip small_letters capital_letters) c of
            None \<Rightarrow> [c] | Some u \<Rightarrow> [u]) s)"

subsection \<open>Text of a value in an f-string\<close>

fun show_nat :: "nat \<Rightarrow> string" where
  "show_nat n =
     (if n < 10 then [''0123456789'' ! n]
      else show_nat (n div 10) @ [''0123456789'' ! (n mod 10)])"

declare show_nat.simps [simp del]

definition py_join :: "string \<Rightarrow> string list \<Rightarrow> string" where
  "py_join sep xs = (case xs of [] \<Rightarrow> [] | y # ys \<Rightarrow> y @ concat (map (\<lambda>z. sep @ z) ys))"

definition hex2 :: "char \<Rightarrow> string" where
  "hex2 c = [''0123456789abcdef'' ! (of_char c div 16), ''0123456789abcdef'' ! (of_char c mod 16)]"

definition py_printable :: "char \<Rightarrow> bool" where
  "py_printable c =
     (let n = (of_char c :: nat)
      in 32 \<le> n \<and> n \<noteq> 127 \<and> (n < 128 \<or> 160 < n) \<and> n \<noteq> 173)"

definition repr_char :: "char \<Rightarrow> char \<Rightarrow> string" where
  "repr_char quote c =
     (if c = quote \<or> c = CHR 0x5C then [CHR 0x5C, c]
      else if c = CHR 0x09 then [CHR 0x5C, CHR ''t'']
      else if c = CHR 0x0A then [CHR 0x5C, CHR ''n'']
      else if c = CHR 0x0D then [CHR 0x5C, CHR ''r'']
      else if py_printable c then [c]
      else [CHR 0x5C, CHR ''x''] @ hex2 c)"

definition repr_str :: "string \<Rightarrow> string" where
  "repr_str s =
     (let quote = (if CHR 0x27 \<in> set s \<and> CHR 0x22 \<notin> set s then CHR 0x22 else CHR 0x27)
      in [quote] @ concat (map (repr_char quote) s) @ [quote])"

fun py_repr :: "json \<Rightarrow> string" where
  "py_repr JNull = ''None''"
| "py_repr (JBool b) = (if b then ''True'' else ''False'')"
| "py_repr (JInt i) = (if i < 0 then ''-'' @ show_nat (nat (- i)) else show_nat (nat i))"
| "py_repr (JFloat nonzero text) = text"
| "py_repr (JStr s) = repr_str s"
| "py_repr (JArr xs) = ''['' @ py_join '', '' (map py_repr xs) @ '']''"
| "py_repr (JObj kvs) =
     ''{'' @ py_join '', '' (map (\<lambda>(k, v). repr_str k @ '': '' @ py_repr v) kvs) @ ''}''"

definition py_str :: "json \<Rightarrow> string" where
  "py_str v = (case v of JStr s \<Rightarrow> s | _ \<Rightarrow> py_repr v)"

definition py_type_name :: "json \<Rightarrow> string" where
  "py_type_name v =
     (case v of
        JNull \<Rightarrow> ''NoneType'' | JBool b \<Rightarrow> ''bool'' | JInt i \<Rightarrow> ''int''
      | JFloat nonzero text \<Rightarrow> ''float'' | JStr s \<Rightarrow> ''str'' | JArr xs \<Rightarrow> ''list''
      | JObj kvs \<Rightarrow> ''dict'')"

section \<open>The files the script reads\<close>

text \<open>
  The script opens files and parses JSON; neither is code of the script. A file is given
  by what each open of it yields: \<open>load_result\<close> for \<^verbatim>\<open>open\<close> followed by
  \<^verbatim>\<open>json.load\<close>, \<open>read_result\<close> for \<^verbatim>\<open>open\<close> followed by
  \<^verbatim>\<open>read\<close>. The strings of the failing cases are the texts of the exceptions.
\<close>

datatype load_result = Loaded json | DecodeError string | OtherError string

datatype read_result = ReadOk string | ReadError string

datatype rules_file = Absent | Present load_result

text \<open>A path is the list of its parts; \<^verbatim>\<open>sorted\<close> compares paths part by part.\<close>

type_synonym path = "string list"

definition path_str :: "path \<Rightarrow> string" where
  "path_str p =
     (case p of
        [] \<Rightarrow> ''.''
      | r # ps \<Rightarrow> if r = ''/'' then ''/'' @ py_join ''/'' ps else py_join ''/'' (r # ps))"

definition path_name :: "path \<Rightarrow> string" where
  "path_name p = (if p = [] \<or> p = [''/''] then [] else last p)"

section \<open>Colours and the rule loader\<close>

definition RED :: string where "RED = CHR 0x1B # ''[0;31m''"
definition GREEN :: string where "GREEN = CHR 0x1B # ''[0;32m''"
definition YELLOW :: string where "YELLOW = CHR 0x1B # ''[1;33m''"
definition NC :: string where "NC = CHR 0x1B # ''[0m''"

definition REQUIRED_DEVCONTAINER_FIELDS :: "string list" where
  "REQUIRED_DEVCONTAINER_FIELDS = [''name'', ''image'']"

text \<open>
  \<open>load_framework_intelligence\<close> returns the dict and the lines it prints. A document
  that parses to something other than a dict has no \<^verbatim>\<open>get\<close>: the
  \<open>AttributeError\<close> of the print is caught by the last handler.
\<close>

definition load_framework_intelligence :: "string \<Rightarrow> rules_file \<Rightarrow> pydict \<times> string list" where
  "load_framework_intelligence intelligence_file f =
     (case f of
        Absent \<Rightarrow>
          ([], [YELLOW @ ''Warning: Framework intelligence file not found at ''
                  @ intelligence_file @ NC,
                YELLOW @ ''Run ./scripts/sync-framework-intelligence.sh to download'' @ NC])
      | Present (Loaded (JObj intelligence)) \<Rightarrow>
          (intelligence,
           [GREEN @ ''Loaded framework intelligence v''
              @ py_str (dict_get intelligence ''version'' (JStr ''unknown'')) @ NC])
      | Present (Loaded v) \<Rightarrow>
          ([], [RED @ ''Error loading framework intelligence: '' @ [CHR 0x27] @ py_type_name v
                  @ [CHR 0x27] @ '' object has no attribute '' @ [CHR 0x27] @ ''get''
                  @ [CHR 0x27] @ NC])
      | Present (DecodeError e) \<Rightarrow>
          ([], [RED @ ''Error: Invalid JSON in framework intelligence file: '' @ e @ NC])
      | Present (OtherError e) \<Rightarrow>
          ([], [RED @ ''Error loading framework intelligence: '' @ e @ NC]))"

definition validate_json_file :: "load_result \<Rightarrow> bool \<times> string \<times> json option" where
  "validate_json_file r =
     (case r of
        Loaded content \<Rightarrow> (True, [], Some content)
      | DecodeError e \<Rightarrow> (False, ''Invalid JSON: '' @ e, None)
      | OtherError e \<Rightarrow> (False, ''Error reading file: '' @ e, None))"

section \<open>Deprecated patterns\<close>

text \<open>
  \<open>extract_deprecated\<close> is the nested function of \<open>check_deprecated_patterns\<close>. It
  appends to the list \<^verbatim>\<open>all_deprecated\<close>; here it returns what it appends, in
  order. \<^verbatim>\<open>.items()\<close> on a value that is not a dict raises \<open>AttributeError\<close>.
  A rule record is the dict \<^verbatim>\<open>{"name": ..., "category": ..., **pattern_info}\<close>:
  the keys of \<^verbatim>\<open>pattern_info\<close> are written over the first two.
\<close>

definition new_path :: "string \<Rightarrow> string \<Rightarrow> string" where
  "new_path category_path key = (if category_path \<noteq> [] then category_path @ ''.'' @ key else key)"

definition rule_record :: "string \<Rightarrow> string \<Rightarrow> pydict \<Rightarrow> pydict" where
  "rule_record pattern_name category_path pattern_info =
     fold (\<lambda>(k, v). AList.update k v) pattern_info
       [(''name'', JStr pattern_name), (''category'', JStr category_path)]"

fun pattern_records :: "string \<Rightarrow> pydict \<Rightarrow> pydict list" where
  "pattern_records category_path [] = []"
| "pattern_records category_path ((pattern_name, pattern_info) # rest) =
     (case pattern_info of
        JObj info \<Rightarrow> [rule_record pattern_name category_path info]
      | _ \<Rightarrow> [])
     @ pattern_records category_path rest"

fun extract_deprecated :: "json \<Rightarrow> string \<Rightarrow> py_error + pydict list"
  and extract_items :: "pydict \<Rightarrow> string \<Rightarrow> py_error + pydict list" where
  "extract_deprecated (JObj data) category_path =
     (case map_of data ''deprecatedPatterns'' of
        None \<Rightarrow> extract_items data category_path
      | Some (JObj patterns) \<Rightarrow>
          bind_err (extract_items data category_path)
            (\<lambda>below. Inr (pattern_records category_path patterns @ below))
      | Some _ \<Rightarrow> Inl AttributeError)"
| "extract_deprecated _ category_path = Inr []"
| "extract_items [] category_path = Inr []"
| "extract_items ((key, val) # rest) category_path =
     (if key \<noteq> ''deprecatedPatterns'' then
        bind_err (extract_deprecated val (new_path category_path key))
          (\<lambda>found. bind_err (extract_items rest category_path)
            (\<lambda>more. Inr (found @ more)))
      else extract_items rest category_path)"

definition search_patterns :: "string \<Rightarrow> string list" where
  \<open>search_patterns pattern =
     [pattern] @
     (if str_contains ''checkOnSave": true'' pattern
      then [''"checkOnSave": true'', CHR 0x27 # ''checkOnSave': true'']
      else [])\<close>

text \<open>
  The message of one finding. \<^verbatim>\<open>.upper()\<close> exists on a string only, and
  \<^verbatim>\<open>deprecated['name']\<close> needs the key.
\<close>

definition finding :: "pydict \<Rightarrow> string \<Rightarrow> py_error + string" where
  "finding deprecated search =
     (case dict_get deprecated ''severity'' (JStr ''warning'') of
        JStr sev \<Rightarrow>
          (let severity = py_upper sev;
               replacement = dict_get deprecated ''replacement'' (JStr ''See documentation'');
               reason = dict_get deprecated ''reason'' (JStr [])
           in case map_of deprecated ''name'' of
                None \<Rightarrow> Inl KeyError
              | Some name \<Rightarrow>
                  Inr (''['' @ severity @ ''] Deprecated pattern found: '' @ py_str name
                       @ (if py_truthy reason then ''\<newline>    Reason: '' @ py_str reason else [])
                       @ ''\<newline>    Found: '' @ take 80 search @ ''...''
                       @ ''\<newline>    Replace with: '' @ py_str replacement))
      | _ \<Rightarrow> Inl AttributeError)"

text \<open>
  One round of the loop over \<^verbatim>\<open>all_deprecated\<close>: the messages it appends (none or
  one). A pattern that is not a string and not false makes \<^verbatim>\<open>in\<close> raise
  \<open>TypeError\<close>, at line 98 or at line 103.
\<close>

definition check_one :: "string \<Rightarrow> pydict \<Rightarrow> py_error + string list" where
  "check_one content deprecated =
     (let pattern = dict_get deprecated ''pattern'' (JStr [])
      in if \<not> py_truthy pattern then Inr []
         else case pattern of
                JStr p \<Rightarrow>
                  (case find (\<lambda>search. str_contains search content) (search_patterns p) of
                     None \<Rightarrow> Inr []
                   | Some search \<Rightarrow> bind_err (finding deprecated search) (\<lambda>m. Inr [m]))
              | _ \<Rightarrow> Inl TypeError)"

fun check_all :: "string \<Rightarrow> pydict list \<Rightarrow> py_error + string list" where
  "check_all content [] = Inr []"
| "check_all content (deprecated # rest) =
     bind_err (check_one content deprecated)
       (\<lambda>errors. bind_err (check_all content rest) (\<lambda>more. Inr (errors @ more)))"

definition check_deprecated_patterns :: "string \<Rightarrow> path \<Rightarrow> pydict \<Rightarrow> py_error + string list" where
  "check_deprecated_patterns content file_path intelligence =
     (if intelligence = [] \<or> \<not> dict_has intelligence ''intelligence'' then Inr []
      else bind_err (extract_deprecated (dict_get intelligence ''intelligence'' (JObj [])) [])
             (check_all content))"

section \<open>Structural validators\<close>

definition checkOnSave_message :: "bool \<Rightarrow> string" where
  \<open>checkOnSave_message check_on_save =
     ''[ERROR] DEPRECATED: rust-analyzer.checkOnSave as boolean\<newline>''
     @ ''    Found: "rust-analyzer.checkOnSave": ''
     @ (if check_on_save then ''true'' else ''false'') @ ''\<newline>''
     @ ''    Replace with: "rust-analyzer.checkOnSave": { "enable": true, "command": "clippy" }\<newline>''
     @ ''    Reason: Boolean syntax deprecated since 2023-06-01''\<close>

text \<open>
  The check of \<^verbatim>\<open>extensions\<close> at the end of \<open>validate_vscode_settings\<close> only
  reaches a \<^verbatim>\<open>pass\<close> and cannot raise: it is left out.
\<close>

definition validate_vscode_settings :: "json \<Rightarrow> pydict \<Rightarrow> string list" where
  "validate_vscode_settings vscode_config intelligence =
     (case vscode_config of
        JObj vscode \<Rightarrow>
          (case dict_get vscode ''settings'' (JObj []) of
             JObj settings \<Rightarrow>
               (case map_of settings ''rust-analyzer.checkOnSave'' of
                  Some (JBool check_on_save) \<Rightarrow> [checkOnSave_message check_on_save]
                | _ \<Rightarrow> [])
           | _ \<Rightarrow> [''vscode.settings must be a dictionary''])
      | _ \<Rightarrow> [''vscode customization must be a dictionary''])"

definition missing_message :: "string \<Rightarrow> string" where
  "missing_message field = ''Missing required field: '' @ [CHR 0x27] @ field @ [CHR 0x27]"

definition invalid_image_message :: "string \<Rightarrow> string" where
  "invalid_image_message img =
     ''Field 'image' appears to be invalid Docker image format: '' @ img"

text \<open>The four blocks of \<open>validate_devcontainer_structure\<close>, each with what it appends.\<close>

fun check_required :: "json \<Rightarrow> string list \<Rightarrow> py_error + string list" where
  "check_required config [] = Inr []"
| "check_required config (field # fields) =
     bind_err (py_in field config)
       (\<lambda>present. bind_err (check_required config fields)
         (\<lambda>more. Inr ((if \<not> present then [missing_message field] else []) @ more)))"

definition check_name :: "json \<Rightarrow> py_error + string list" where
  "check_name config =
     bind_err (py_in ''name'' config)
       (\<lambda>present. if \<not> present then Inr []
          else bind_err (py_item config ''name'')
            (\<lambda>name. Inr (case name of
                 JStr s \<Rightarrow>
                   if py_strip s = [] then [''Field 'name' must be a non-empty string''] else []
               | _ \<Rightarrow> [''Field 'name' must be a non-empty string''])))"

definition check_image :: "json \<Rightarrow> py_error + string list" where
  "check_image config =
     bind_err (py_in ''image'' config)
       (\<lambda>present. if \<not> present then Inr []
          else bind_err (py_item config ''image'')
            (\<lambda>img. Inr (case img of
                 JStr s \<Rightarrow>
                   if py_strip s = [] then [''Field 'image' must be a non-empty string'']
                   else if \<not> str_contains '':'' s \<and> \<not> str_contains ''/'' s
                     then [invalid_image_message s]
                   else []
               | _ \<Rightarrow> [''Field 'image' must be a non-empty string''])))"

definition check_customizations :: "json \<Rightarrow> pydict \<Rightarrow> py_error + string list" where
  "check_customizations config intelligence =
     bind_err (py_in ''customizations'' config)
       (\<lambda>present. if \<not> present then Inr []
          else bind_err (py_item config ''customizations'')
            (\<lambda>customizations. Inr (case customizations of
                 JObj c \<Rightarrow>
                   (case map_of c ''vscode'' of
                      None \<Rightarrow> []
                    | Some vscode \<Rightarrow> validate_vscode_settings vscode intelligence)
               | _ \<Rightarrow> [''Field 'customizations' must be a dictionary''])))"

definition validate_devcontainer_structure :: "json \<Rightarrow> path \<Rightarrow> pydict \<Rightarrow> py_error + string list" where
  "validate_devcontainer_structure config file_path intelligence =
     bind_err (check_required config REQUIRED_DEVCONTAINER_FIELDS) (\<lambda>e1.
     bind_err (check_name config) (\<lambda>e2.
     bind_err (check_image config) (\<lambda>e3.
     bind_err (check_customizations config intelligence) (\<lambda>e4.
     Inr (e1 @ e2 @ e3 @ e4)))))"

definition tailwind3_message :: string where
  "tailwind3_message =
     ''[WARNING] Tailwind 3 configuration detected\<newline>''
     @ ''    Consider migrating to Tailwind 4 CSS-first config\<newline>''
     @ ''    Use @theme { } directive in CSS instead of JS config''"

definition purge_message :: string where
  "purge_message =
     ''[ERROR] Deprecated 'purge' option found\<newline>''
     @ ''    Replace with: content: ['./src/**/*.{js,jsx,ts,tsx}']''"

text \<open>\<open>validate_tailwind_config\<close> catches every exception of its read.\<close>

definition validate_tailwind_config :: "read_result \<Rightarrow> pydict \<Rightarrow> string list" where
  "validate_tailwind_config config_read intelligence =
     (case config_read of
        ReadOk content \<Rightarrow>
          (if str_contains ''module.exports'' content \<and> str_contains ''theme:'' content
           then [tailwind3_message] else [])
          @ (if str_contains ''purge:'' content then [purge_message] else [])
      | ReadError e \<Rightarrow> [''Error reading Tailwind config: '' @ e])"

definition legacy_files :: "string list" where
  "legacy_files =
     [''.eslintrc'', ''.eslintrc.js'', ''.eslintrc.json'', ''.eslintrc.yaml'', ''.eslintrc.yml'']"

definition validate_eslint_config :: "path \<Rightarrow> pydict \<Rightarrow> string list" where
  "validate_eslint_config config_path intelligence =
     (let filename = path_name config_path
      in if filename \<in> set legacy_files
         then [''[WARNING] Legacy ESLint config format detected: '' @ filename @ ''\<newline>''
               @ ''    ESLint 9+ uses flat config format\<newline>''
               @ ''    Migrate to: eslint.config.js or eslint.config.mjs'']
         else [])"

section \<open>Discovery and the driver\<close>

text \<open>
  A project is the rules file, what the glob patterns of each kind yield (in the order
  and with the repetitions the file system gives), and what the opens of a scanned file
  yield. \<open>main\<close> opens a devcontainer file twice: in \<open>validate_json_file\<close>
  (\<open>load_file\<close>) and for the raw content (\<open>read_file\<close>).
\<close>

record project =
  project_root :: path
  rules :: rules_file
  devcontainer_found :: "path list"
  tailwind_found :: "path list"
  eslint_found :: "path list"
  load_file :: "path \<Rightarrow> load_result"
  read_file :: "path \<Rightarrow> read_result"

text \<open>The keys \<^verbatim>\<open>package\<close> and \<^verbatim>\<open>tsconfig\<close> stay empty and are never read.\<close>

record config_files =
  devcontainer :: "path list"
  tailwind :: "path list"
  eslint :: "path list"

definition find_config_files :: "project \<Rightarrow> config_files" where
  "find_config_files pr =
     \<lparr>devcontainer = sort (remdups
        (filter (\<lambda>file. \<not> str_contains ''node_modules'' (path_str file)) (devcontainer_found pr))),
      tailwind = sort (remdups
        (filter (\<lambda>file. \<not> str_contains ''node_modules'' (path_str file)) (tailwind_found pr))),
      eslint = sort (remdups (eslint_found pr))\<rparr>"

record summary =
  total_errors :: nat
  total_warnings :: nat
  total_validated :: nat

text \<open>The three aggregation loops of \<open>main\<close>, one message at a time.\<close>

definition tally_devcontainer :: "string \<Rightarrow> summary \<Rightarrow> summary" where
  "tally_devcontainer error s =
     (if str_contains ''[ERROR]'' error then s\<lparr>total_errors := total_errors s + 1\<rparr>
      else if str_contains ''[WARNING]'' error then s\<lparr>total_warnings := total_warnings s + 1\<rparr>
      else s\<lparr>total_errors := total_errors s + 1\<rparr>)"

definition tally_tailwind :: "string \<Rightarrow> summary \<Rightarrow> summary" where
  "tally_tailwind error s =
     (if str_contains ''[ERROR]'' error then s\<lparr>total_errors := total_errors s + 1\<rparr>
      else s\<lparr>total_warnings := total_warnings s + 1\<rparr>)"

definition tally_eslint :: "string \<Rightarrow> summary \<Rightarrow> summary" where
  "tally_eslint error s =
     (if str_contains ''[ERROR]'' error then s\<lparr>total_errors := total_errors s + 1\<rparr>
      else s\<lparr>total_warnings := total_warnings s + 1\<rparr>)"

text \<open>
  The body of the loop over the devcontainer files. The raw read of line 325 is outside
  any \<^verbatim>\<open>try\<close>: its exception leaves \<open>main\<close>.
\<close>

definition scan_devcontainer :: "project \<Rightarrow> pydict \<Rightarrow> path \<Rightarrow> summary \<Rightarrow> py_error + summary" where
  "scan_devcontainer pr intelligence devcontainer_file s =
     (case validate_json_file (load_file pr devcontainer_file) of
        (False, json_error, config) \<Rightarrow> Inr (s\<lparr>total_errors := total_errors s + 1\<rparr>)
      | (True, json_error, None) \<Rightarrow> Inl TypeError
      | (True, json_error, Some config) \<Rightarrow>
          bind_err (validate_devcontainer_structure config devcontainer_file intelligence)
            (\<lambda>structure_errors.
               case read_file pr devcontainer_file of
                 ReadError e \<Rightarrow> Inl (OSError e)
               | ReadOk raw_content \<Rightarrow>
                   bind_err (check_deprecated_patterns raw_content devcontainer_file intelligence)
                     (\<lambda>deprecated_errors.
                        let all_errors = structure_errors @ deprecated_errors
                        in if all_errors \<noteq> [] then Inr (fold tally_devcontainer all_errors s)
                           else Inr (s\<lparr>total_validated := total_validated s + 1\<rparr>))))"

definition scan_tailwind :: "project \<Rightarrow> pydict \<Rightarrow> path \<Rightarrow> summary \<Rightarrow> py_error + summary" where
  "scan_tailwind pr intelligence tailwind_file s =
     (let errors = validate_tailwind_config (read_file pr tailwind_file) intelligence
      in if errors \<noteq> [] then Inr (fold tally_tailwind errors s)
         else Inr (s\<lparr>total_validated := total_validated s + 1\<rparr>))"

definition scan_eslint :: "project \<Rightarrow> pydict \<Rightarrow> path \<Rightarrow> summary \<Rightarrow> py_error + summary" where
  "scan_eslint pr intelligence eslint_file s =
     (let errors = validate_eslint_config eslint_file intelligence
      in if errors \<noteq> [] then Inr (fold tally_eslint errors s)
         else Inr (s\<lparr>total_validated := total_validated s + 1\<rparr>))"

text \<open>A \<^verbatim>\<open>for\<close> loop over files: an exception of the body ends the loop.\<close>

fun for_each :: "('a \<Rightarrow> summary \<Rightarrow> py_error + summary) \<Rightarrow> 'a list \<Rightarrow> summary \<Rightarrow> py_error + summary" where
  "for_each body [] s = Inr s"
| "for_each body (x # xs) s = bind_err (body x s) (for_each body xs)"

definition exit_status :: "summary \<Rightarrow> nat" where
  "exit_status s = (if total_errors s = 0 then 0 else 1)"

text \<open>
  \<open>main\<close> returns the status it passes to \<^verbatim>\<open>sys.exit\<close> with the summary
  counters, or the exception that leaves it (the interpreter then prints a traceback and
  the process ends with status 1). What \<open>main\<close> prints is not modelled.
\<close>

definition main :: "project \<Rightarrow> py_error + nat \<times> summary" where
  "main pr =
     (let intelligence =
            fst (load_framework_intelligence
                   (path_str (project_root pr @ [''.framework-intelligence.json''])) (rules pr));
          config_files = find_config_files pr;
          s0 = \<lparr>total_errors = 0, total_warnings = 0, total_validated = 0\<rparr>
      in bind_err (for_each (scan_devcontainer pr intelligence) (devcontainer config_files) s0)
           (\<lambda>s1. bind_err (for_each (scan_tailwind pr intelligence) (tailwind config_files) s1)
           (\<lambda>s2. bind_err (for_each (scan_eslint pr intelligence) (eslint config_files) s2)
           (\<lambda>s3. Inr (exit_status s3, s3)))))"

section \<open>Closed forms of the validators on a dict\<close>

text \<open>
  What the blocks of \<open>validate_devcontainer_structure\<close> append when the config is a
  dict, where no operation of the function can raise.
\<close>

definition name_errors :: "pydict \<Rightarrow> string list" where
  "name_errors config =
     (case map_of config ''name'' of
        None \<Rightarrow> []
      | Some (JStr s) \<Rightarrow> if py_strip s = [] then [''Field 'name' must be a non-empty string''] else []
      | Some _ \<Rightarrow> [''Field 'name' must be a non-empty string''])"

definition image_errors :: "pydict \<Rightarrow> string list" where
  "image_errors config =
     (case map_of config ''image'' of
        None \<Rightarrow> []
      | Some (JStr s) \<Rightarrow>
          if py_strip s = [] then [''Field 'image' must be a non-empty string'']
          else if \<not> str_contains '':'' s \<and> \<not> str_contains ''/'' s then [invalid_image_message s]
          else []
      | Some _ \<Rightarrow> [''Field 'image' must be a non-empty string''])"

definition customizations_errors :: "pydict \<Rightarrow> pydict \<Rightarrow> string list" where
  "customizations_errors config intelligence =
     (case map_of config ''customizations'' of
        None \<Rightarrow> []
      | Some (JObj c) \<Rightarrow>
          (case map_of c ''vscode'' of
             None \<Rightarrow> []
           | Some vscode \<Rightarrow> validate_vscode_settings vscode intelligence)
      | Some _ \<Rightarrow> [''Field 'customizations' must be a dictionary''])"

text \<open>The messages that report an invalid image format.\<close>

definition is_invalid_image :: "string \<Rightarrow> bool" where
  "is_invalid_image m = prefix ''Field 'image' appears to be invalid Docker image format: '' m"

section \<open>The rule tree as the specification describes it\<close>

text \<open>
  The specification speaks of the entries of every \<^verbatim>\<open>deprecatedPatterns\<close> map at
  every nesting depth, the descent going on into all other keys, and of the dotted path of
  the ancestors of a node. \<open>pattern_entries\<close> lists these entries, each with the keys
  that lead to its node; it is written from these words, not from the code.
\<close>

definition is_mapping :: "json \<Rightarrow> bool" where
  "is_mapping v = (case v of JObj d \<Rightarrow> True | _ \<Rightarrow> False)"

fun pattern_entries :: "string list \<Rightarrow> json \<Rightarrow> (string list \<times> string \<times> json) list"
  and pattern_entries_items :: "string list \<Rightarrow> pydict \<Rightarrow> (string list \<times> string \<times> json) list" where
  "pattern_entries ancestors (JObj data) =
     (case map_of data ''deprecatedPatterns'' of
        Some (JObj patterns) \<Rightarrow> map (\<lambda>(name, info). (ancestors, name, info)) patterns
      | _ \<Rightarrow> [])
     @ pattern_entries_items ancestors data"
| "pattern_entries ancestors _ = []"
| "pattern_entries_items ancestors [] = []"
| "pattern_entries_items ancestors ((key, val) # rest) =
     (if key \<noteq> ''deprecatedPatterns'' then pattern_entries (ancestors @ [key]) val else [])
     @ pattern_entries_items ancestors rest"

definition dotted_path :: "string list \<Rightarrow> string" where
  "dotted_path ancestors = foldl new_path [] ancestors"

text \<open>Every \<^verbatim>\<open>deprecatedPatterns\<close> value that the descent meets is a mapping.\<close>

fun patterns_ok :: "json \<Rightarrow> bool" and patterns_ok_items :: "pydict \<Rightarrow> bool" where
  "patterns_ok (JObj data) =
     ((case map_of data ''deprecatedPatterns'' of
         None \<Rightarrow> True | Some v \<Rightarrow> is_mapping v)
      \<and> patterns_ok_items data)"
| "patterns_ok _ = True"
| "patterns_ok_items [] = True"
| "patterns_ok_items ((key, val) # rest) =
     ((if key \<noteq> ''deprecatedPatterns'' then patterns_ok val else True) \<and> patterns_ok_items rest)"

text \<open>The record that the flattener makes of an entry whose value is a mapping.\<close>

fun entry_records :: "(string list \<times> string \<times> json) list \<Rightarrow> pydict list" where
  "entry_records [] = []"
| "entry_records ((ancestors, name, info) # rest) =
     (case info of
        JObj attrs \<Rightarrow> [rule_record name (dotted_path ancestors) attrs]
      | _ \<Rightarrow> [])
     @ entry_records rest"

text \<open>The rule tree without the entries whose value is not a mapping.\<close>

fun prune :: "json \<Rightarrow> json" and prune_items :: "pydict \<Rightarrow> pydict" where
  "prune (JObj data) = JObj (prune_items data)"
| "prune v = v"
| "prune_items [] = []"
| "prune_items ((key, val) # rest) =
     (if key = ''deprecatedPatterns''
      then (key, case val of
                   JObj patterns \<Rightarrow> JObj (filter (\<lambda>(name, info). is_mapping info) patterns)
                 | _ \<Rightarrow> val)
      else (key, prune val))
     # prune_items rest"

section \<open>Rules that match a content\<close>

text \<open>
  A rule record matches a content when its pattern is a non-empty string and one of its
  search variants is a substring of the content. A rule record is well typed when the
  loop of \<open>check_deprecated_patterns\<close> cannot raise on it: its pattern is a string or
  false, its severity is a string, and it has a name.
\<close>

definition rule_hits :: "string \<Rightarrow> pydict \<Rightarrow> bool" where
  "rule_hits content deprecated =
     (case dict_get deprecated ''pattern'' (JStr []) of
        JStr p \<Rightarrow> p \<noteq> [] \<and> list_ex (\<lambda>search. str_contains search content) (search_patterns p)
      | _ \<Rightarrow> False)"

definition rule_typed :: "pydict \<Rightarrow> bool" where
  "rule_typed deprecated =
     ((case dict_get deprecated ''pattern'' (JStr []) of
         JStr p \<Rightarrow> True
       | v \<Rightarrow> \<not> py_truthy v)
      \<and> (case dict_get deprecated ''severity'' (JStr ''warning'') of
           JStr sev \<Rightarrow> True
         | _ \<Rightarrow> False)
      \<and> dict_has deprecated ''name'')"

section \<open>The errors of the structural validators alone\<close>





section \<open>Properties\<close>

subsection \<open>The structural validator on a dict\<close>

lemma bind_err_simps [simp]:
  "bind_err (Inl e) f = Inl e" "bind_err (Inr x) f = f x"
  by (simp_all add: bind_err_def)

lemma check_required_dict:
  "check_required (JObj config) fs =
     Inr (map missing_message (filter (\<lambda>field. \<not> dict_has config field) fs))"
  by (induction fs) (simp_all add: py_in_def)

lemma check_name_dict: "check_name (JObj config) = Inr (name_errors config)"
  by (simp add: check_name_def name_errors_def py_in_def py_item_def dict_has_def
      split: option.split json.split)

lemma check_image_dict: "check_image (JObj config) = Inr (image_errors config)"
  by (simp add: check_image_def image_errors_def py_in_def py_item_def dict_has_def
      split: option.split json.split)

lemma check_customizations_dict:
  "check_customizations (JObj config) intelligence = Inr (customizations_errors config intelligence)"
  by (simp add: check_customizations_def customizations_errors_def py_in_def py_item_def dict_has_def
      split: option.split json.split)

lemma validate_devcontainer_structure_dict:
  "validate_devcontainer_structure (JObj config) file_path intelligence =
     Inr (map missing_message (filter (\<lambda>field. \<not> dict_has config field) REQUIRED_DEVCONTAINER_FIELDS)
          @ name_errors config @ image_errors config @ customizations_errors config intelligence)"
  by (simp add: validate_devcontainer_structure_def check_required_dict check_name_dict
      check_image_dict check_customizations_dict)

lemma name_errors_cases:
  "name_errors config = [] \<or> name_errors config = [''Field 'name' must be a non-empty string'']"
  by (simp add: name_errors_def split: option.split json.split)

lemma image_errors_cases:
  "image_errors config = [] \<or> image_errors config = [''Field 'image' must be a non-empty string'']
   \<or> (\<exists>s. image_errors config = [invalid_image_message s])"
  by (auto simp: image_errors_def split: option.split json.split)

lemma vscode_cases:
  "validate_vscode_settings v intelligence = [] \<or>
   (\<exists>b. validate_vscode_settings v intelligence = [checkOnSave_message b]) \<or>
   validate_vscode_settings v intelligence = [''vscode.settings must be a dictionary''] \<or>
   validate_vscode_settings v intelligence = [''vscode customization must be a dictionary'']"
  by (auto simp: validate_vscode_settings_def split: option.split json.split)

lemma customizations_cases:
  "customizations_errors config intelligence = [] \<or>
   customizations_errors config intelligence = [''Field 'customizations' must be a dictionary''] \<or>
   (\<exists>v. customizations_errors config intelligence = validate_vscode_settings v intelligence)"
  by (simp add: customizations_errors_def split: option.split json.split) blast

lemma not_missing_name: "filter (prefix ''Missing required field: '') (name_errors config) = []"
  using name_errors_cases [of config] by auto

lemma not_missing_image: "filter (prefix ''Missing required field: '') (image_errors config) = []"
  using image_errors_cases [of config] by (auto simp: invalid_image_message_def)

lemma not_missing_vscode:
  "filter (prefix ''Missing required field: '') (validate_vscode_settings v intelligence) = []"
  using vscode_cases [of v intelligence] by (auto simp: checkOnSave_message_def)

lemma not_missing_customizations:
  "filter (prefix ''Missing required field: '') (customizations_errors config intelligence) = []"
  using customizations_cases [of config intelligence] by (auto simp: not_missing_vscode)

lemma missing_is_missing: "prefix ''Missing required field: '' (missing_message field)"
  by (simp add: missing_message_def)

lemma missing_message_inj: "missing_message a = missing_message b \<longleftrightarrow> a = b"
  by (simp add: missing_message_def)

lemma no_missing_equal:
  assumes "filter (prefix ''Missing required field: '') xs = []"
  shows "filter (\<lambda>m. m = missing_message field) xs = []"
proof -
  have "\<And>m. m \<in> set xs \<Longrightarrow> m \<noteq> missing_message field"
    using assms missing_is_missing by (fastforce simp: filter_empty_conv)
  then show ?thesis by (simp add: filter_empty_conv)
qed

lemma structural_rest_no_missing:
  "filter (prefix ''Missing required field: '')
     (name_errors config @ image_errors config @ customizations_errors config intelligence) = []"
  by (simp add: not_missing_name not_missing_image not_missing_customizations)

text \<open>
  C5: on every devcontainer object the structural validator runs to its end, and the
  result holds the message of a missing \<^verbatim>\<open>name\<close> once when the key is absent
  and not at all otherwise, the same for \<^verbatim>\<open>image\<close>, and no other message of a
  missing field. The object \<^verbatim>\<open>{"image": "notanimage"}\<close> gives two messages: the
  missing \<^verbatim>\<open>name\<close> and the invalid image format.
\<close>

theorem C5_missing_field_messages:
  "(\<exists>errors. validate_devcontainer_structure (JObj config) file_path intelligence = Inr errors
      \<and> length (filter (\<lambda>m. m = missing_message ''name'') errors)
          = (if dict_has config ''name'' then 0 else 1)
      \<and> length (filter (\<lambda>m. m = missing_message ''image'') errors)
          = (if dict_has config ''image'' then 0 else 1)
      \<and> length (filter (prefix ''Missing required field: '') errors)
          = length (filter (\<lambda>field. \<not> dict_has config field) REQUIRED_DEVCONTAINER_FIELDS))
   \<and> validate_devcontainer_structure (JObj [(''image'', JStr ''notanimage'')]) file_path intelligence
       = Inr [missing_message ''name'', invalid_image_message ''notanimage'']"
proof -
  let ?rest = "name_errors config @ image_errors config @ customizations_errors config intelligence"
  let ?missing = "map missing_message
      (filter (\<lambda>field. \<not> dict_has config field) REQUIRED_DEVCONTAINER_FIELDS)"
  have run: "validate_devcontainer_structure (JObj config) file_path intelligence
      = Inr (?missing @ ?rest)"
    by (simp add: validate_devcontainer_structure_dict)
  have rest: "filter (prefix ''Missing required field: '') ?rest = []"
    by (rule structural_rest_no_missing)
  have eq_rest: "\<And>field. filter (\<lambda>m. m = missing_message field) ?rest = []"
    using rest by (rule no_missing_equal)
  have n: "length (filter (\<lambda>m. m = missing_message ''name'') (?missing @ ?rest))
      = (if dict_has config ''name'' then 0 else 1)"
    using eq_rest [of "''name''"]
    by (simp add: REQUIRED_DEVCONTAINER_FIELDS_def missing_message_inj)
  have i: "length (filter (\<lambda>m. m = missing_message ''image'') (?missing @ ?rest))
      = (if dict_has config ''image'' then 0 else 1)"
    using eq_rest [of "''image''"]
    by (simp add: REQUIRED_DEVCONTAINER_FIELDS_def missing_message_inj)
  have p: "length (filter (prefix ''Missing required field: '') (?missing @ ?rest))
      = length (filter (\<lambda>field. \<not> dict_has config field) REQUIRED_DEVCONTAINER_FIELDS)"
    using rest by (simp add: REQUIRED_DEVCONTAINER_FIELDS_def missing_message_def)
  have ex: "validate_devcontainer_structure (JObj [(''image'', JStr ''notanimage'')]) file_path intelligence
       = Inr [missing_message ''name'', invalid_image_message ''notanimage'']"
    by (simp add: validate_devcontainer_structure_dict REQUIRED_DEVCONTAINER_FIELDS_def
        dict_has_def name_errors_def image_errors_def customizations_errors_def
        py_strip_def py_isspace_def)
  from run n i p ex show ?thesis by blast
qed

theorem C5_missing_field_messages_witness:
  "\<exists>errors. validate_devcontainer_structure (JObj [(''image'', JStr ''notanimage'')]) [''devcontainer.json''] [] = Inr errors
      \<and> length (filter (\<lambda>m. m = missing_message ''name'') errors) = 1
      \<and> length (filter (\<lambda>m. m = missing_message ''image'') errors) = 0
      \<and> length (filter (prefix ''Missing required field: '') errors) = 1"
  using C5_missing_field_messages [of "[(''image'', JStr ''notanimage'')]" "[''devcontainer.json'']" "[]",
      THEN conjunct1]
  by (simp add: dict_has_def REQUIRED_DEVCONTAINER_FIELDS_def)

subsection \<open>The image format\<close>

lemma invalid_is_invalid: "is_invalid_image (invalid_image_message s)"
  by (simp add: is_invalid_image_def invalid_image_message_def)

lemma missing_not_invalid: "\<not> is_invalid_image (missing_message field)"
  by (simp add: is_invalid_image_def missing_message_def)

lemma name_errors_not_invalid: "filter is_invalid_image (name_errors config) = []"
  using name_errors_cases [of config] by (auto simp: is_invalid_image_def)

lemma vscode_not_invalid: "filter is_invalid_image (validate_vscode_settings v intelligence) = []"
  using vscode_cases [of v intelligence] by (auto simp: is_invalid_image_def checkOnSave_message_def)

lemma customizations_not_invalid:
  "filter is_invalid_image (customizations_errors config intelligence) = []"
  using customizations_cases [of config intelligence]
  by (auto simp: is_invalid_image_def vscode_not_invalid)

lemma image_errors_invalid:
  "filter is_invalid_image (image_errors config) =
     (case map_of config ''image'' of
        Some (JStr s) \<Rightarrow>
          if py_strip s \<noteq> [] \<and> \<not> str_contains '':'' s \<and> \<not> str_contains ''/'' s
          then [invalid_image_message s] else []
      | _ \<Rightarrow> [])"
  by (auto simp: image_errors_def invalid_image_message_def is_invalid_image_def split: option.split json.split)

text \<open>
  C6 as stated fails: the empty string is an \<^verbatim>\<open>image\<close> value that lacks both
  \<^verbatim>\<open>:\<close> and \<^verbatim>\<open>/\<close>, and the validator reports it as not being a
  non-empty string, with no message of an invalid image format.
\<close>

theorem C6_counterexample:
  "\<not> str_contains '':'' [] \<and> \<not> str_contains ''/'' [] \<and>
   validate_devcontainer_structure (JObj [(''name'', JStr ''x''), (''image'', JStr [])])
       [''.devcontainer'', ''devcontainer.json''] []
     = Inr [''Field 'image' must be a non-empty string''] \<and>
   \<not> is_invalid_image ''Field 'image' must be a non-empty string''"
  by (simp add: validate_devcontainer_structure_dict REQUIRED_DEVCONTAINER_FIELDS_def
      dict_has_def name_errors_def image_errors_def customizations_errors_def
      py_strip_def py_isspace_def is_invalid_image_def)

text \<open>
  C6, amended: on every devcontainer object the validator reports exactly one message of
  an invalid image format when \<^verbatim>\<open>image\<close> is a string that is not blank (not
  empty after \<^verbatim>\<open>strip\<close>) and holds neither \<^verbatim>\<open>:\<close> nor
  \<^verbatim>\<open>/\<close>, and none in every other case: a string with one of the two
  characters, a blank string, a value that is not a string, no \<^verbatim>\<open>image\<close>.
\<close>

theorem C6_invalid_image_format:
  "\<exists>errors. validate_devcontainer_structure (JObj config) file_path intelligence = Inr errors \<and>
     filter is_invalid_image errors =
       (case map_of config ''image'' of
          Some (JStr s) \<Rightarrow>
            if py_strip s \<noteq> [] \<and> \<not> str_contains '':'' s \<and> \<not> str_contains ''/'' s
            then [invalid_image_message s] else []
        | _ \<Rightarrow> [])"
  by (simp add: validate_devcontainer_structure_dict name_errors_not_invalid
      customizations_not_invalid image_errors_invalid missing_not_invalid
      REQUIRED_DEVCONTAINER_FIELDS_def)

theorem C6_invalid_image_format_witness:
  "(\<exists>errors. validate_devcontainer_structure (JObj [(''name'', JStr ''x''), (''image'', JStr ''notanimage'')])
       [''devcontainer.json''] [] = Inr errors \<and>
     filter is_invalid_image errors = [invalid_image_message ''notanimage'']) \<and>
   (\<exists>errors. validate_devcontainer_structure (JObj [(''name'', JStr ''x''), (''image'', JStr ''ubuntu:22.04'')])
       [''devcontainer.json''] [] = Inr errors \<and>
     filter is_invalid_image errors = [])"
  using C6_invalid_image_format [of "[(''name'', JStr ''x''), (''image'', JStr ''notanimage'')]" "[''devcontainer.json'']" "[]"]
    C6_invalid_image_format [of "[(''name'', JStr ''x''), (''image'', JStr ''ubuntu:22.04'')]" "[''devcontainer.json'']" "[]"]
  by (simp add: py_strip_def py_isspace_def)

subsection \<open>The flattener\<close>

lemma entry_records_append: "entry_records (xs @ ys) = entry_records xs @ entry_records ys"
  by (induction xs) auto

lemma pattern_records_entries:
  "pattern_records (dotted_path ancestors) patterns =
     entry_records (map (\<lambda>(name, info). (ancestors, name, info)) patterns)"
  by (induction patterns) auto

lemma dotted_path_snoc: "new_path (dotted_path ancestors) key = dotted_path (ancestors @ [key])"
  by (simp add: dotted_path_def)

lemma extract_as_entries:
  "patterns_ok v \<Longrightarrow>
     extract_deprecated v (dotted_path ancestors) = Inr (entry_records (pattern_entries ancestors v))"
  "patterns_ok_items data \<Longrightarrow>
     extract_items data (dotted_path ancestors) = Inr (entry_records (pattern_entries_items ancestors data))"
proof (induction ancestors v and ancestors data rule: pattern_entries_pattern_entries_items.induct)
  case (1 ancestors data)
  then show ?case
    by (auto simp: is_mapping_def entry_records_append pattern_records_entries
        split: option.splits json.splits)
next
  case (4 ancestors key val rest)
  then show ?case
    by (auto simp: entry_records_append dotted_path_snoc)
qed simp_all

lemma dotted_path_single: "dotted_path [p] = p"
  by (simp add: dotted_path_def new_path_def)

lemma extract_returns:
  "patterns_ok v \<Longrightarrow> \<exists>records. extract_deprecated v p = Inr records"
  using extract_as_entries(1) [of v "[p]"] by (simp add: dotted_path_single)

lemma extract_fails:
  "\<not> patterns_ok v \<Longrightarrow> extract_deprecated v p = Inl AttributeError"
  "\<not> patterns_ok_items data \<Longrightarrow> extract_items data p = Inl AttributeError"
proof (induction v and data arbitrary: p and p rule: patterns_ok_patterns_ok_items.induct)
  case (1 data)
  show ?case
  proof (cases "patterns_ok_items data")
    case True
    with "1.prems" show ?thesis
      by (auto simp: is_mapping_def split: option.splits json.splits)
  next
    case False
    then have "extract_items data p = Inl AttributeError" by (rule "1.IH")
    then show ?thesis by (simp split: option.splits json.splits)
  qed
next
  case (4 key val rest)
  show ?case
  proof (cases "key = ''deprecatedPatterns''")
    case True
    with "4.prems" have "\<not> patterns_ok_items rest" by simp
    then have "extract_items rest p = Inl AttributeError" by (rule "4.IH"(2))
    with True show ?thesis by simp
  next
    case False
    show ?thesis
    proof (cases "patterns_ok val")
      case True
      with "4.prems" False have "\<not> patterns_ok_items rest" by simp
      then have rest: "extract_items rest p = Inl AttributeError" by (rule "4.IH"(2))
      from True obtain records where "extract_deprecated val (new_path p key) = Inr records"
        using extract_returns by blast
      with rest False show ?thesis by simp
    next
      case bad: False
      have "extract_deprecated val (new_path p key) = Inl AttributeError"
        using False bad by (rule "4.IH"(1))
      with False show ?thesis by simp
    qed
  qed
qed simp_all

lemma rule_record_category:
  "''category'' \<notin> fst ` set attrs \<Longrightarrow>
     map_of (rule_record name category_path attrs) ''category'' = Some (JStr category_path)"
proof -
  have "\<And>base. ''category'' \<notin> fst ` set attrs \<Longrightarrow>
      map_of (fold (\<lambda>(k, v). AList.update k v) attrs base) ''category'' = map_of base ''category''"
    by (induction attrs) (auto simp: update_conv')
  then show "''category'' \<notin> fst ` set attrs \<Longrightarrow> ?thesis"
    by (simp add: rule_record_def)
qed

lemma rule_record_name:
  "''name'' \<notin> fst ` set attrs \<Longrightarrow>
     map_of (rule_record name category_path attrs) ''name'' = Some (JStr name)"
proof -
  have "\<And>base. ''name'' \<notin> fst ` set attrs \<Longrightarrow>
      map_of (fold (\<lambda>(k, v). AList.update k v) attrs base) ''name'' = map_of base ''name''"
    by (induction attrs) (auto simp: update_conv')
  then show "''name'' \<notin> fst ` set attrs \<Longrightarrow> ?thesis"
    by (simp add: rule_record_def)
qed

lemma dotted_path_join:
  "[] \<notin> set ancestors \<Longrightarrow> dotted_path ancestors = py_join ''.'' ancestors"
proof (induction ancestors rule: rev_induct)
  case Nil
  then show ?case by (simp add: dotted_path_def py_join_def)
next
  case (snoc key ancestors)
  then show ?case
    by (cases ancestors) (auto simp: dotted_path_def py_join_def new_path_def)
qed

lemma length_entry_records:
  "length (entry_records es) = length (filter (\<lambda>(ancestors, name, info). is_mapping info) es)"
proof (induction es)
  case Nil
  then show ?case by simp
next
  case (Cons e es)
  obtain a n i where e: "e = (a, n, i)" by (cases e)
  show ?case using Cons e by (cases i) (simp_all add: is_mapping_def)
qed

lemma entry_records_all2:
  "list_all2 (\<lambda>record (ancestors, name, info).
       \<exists>attrs. info = JObj attrs \<and> record = rule_record name (dotted_path ancestors) attrs)
     (entry_records es) (filter (\<lambda>(ancestors, name, info). is_mapping info) es)"
proof (induction es)
  case Nil
  then show ?case by simp
next
  case (Cons e es)
  obtain a n i where e: "e = (a, n, i)" by (cases e)
  show ?case using Cons e by (cases i) (simp_all add: is_mapping_def)
qed


text \<open>
  C2 as stated fails: an entry whose value is not a mapping is an entry of a
  \<^verbatim>\<open>deprecatedPatterns\<close> map and gives no record; and an entry that has a
  \<^verbatim>\<open>category\<close> of its own keeps it, here \<^verbatim>\<open>other\<close> and not the
  path \<^verbatim>\<open>rust\<close>.
\<close>

theorem C2_counterexample:
  "extract_deprecated (JObj [(''deprecatedPatterns'', JObj [(''old'', JStr ''x'')])]) [] = Inr [] \<and>
   length (pattern_entries [] (JObj [(''deprecatedPatterns'', JObj [(''old'', JStr ''x'')])])) = 1 \<and>
   extract_deprecated
     (JObj [(''rust'', JObj [(''deprecatedPatterns'',
        JObj [(''old'', JObj [(''category'', JStr ''other'')])])])]) []
     = Inr [[(''name'', JStr ''old''), (''category'', JStr ''other'')]] \<and>
   dotted_path [''rust''] = ''rust''"
  by (simp add: rule_record_def new_path_def dotted_path_def)

text \<open>
  C2, amended: when every \<^verbatim>\<open>deprecatedPatterns\<close> value that the descent meets is
  a mapping, the flattener returns, and its records are, in order, those of the entries
  whose value is a mapping: as many records as such entries across every
  \<^verbatim>\<open>deprecatedPatterns\<close> map at every depth, each record the entry's own fields
  written over its name and the dotted path of its ancestors. The category of the record
  is that path unless the entry has a \<^verbatim>\<open>category\<close> of its own, and the path
  is the ancestors' keys joined with dots when none of them is empty.
\<close>

theorem C2_flattener_count:
  assumes "patterns_ok tree"
  shows "\<exists>records. extract_deprecated tree [] = Inr records \<and>
     length records
       = length (filter (\<lambda>(ancestors, name, info). is_mapping info) (pattern_entries [] tree)) \<and>
     list_all2 (\<lambda>record (ancestors, name, info).
         \<exists>attrs. info = JObj attrs \<and> record = rule_record name (dotted_path ancestors) attrs \<and>
           (''category'' \<notin> fst ` set attrs \<longrightarrow>
              map_of record ''category'' = Some (JStr (dotted_path ancestors))) \<and>
           ([] \<notin> set ancestors \<longrightarrow> dotted_path ancestors = py_join ''.'' ancestors))
       records (filter (\<lambda>(ancestors, name, info). is_mapping info) (pattern_entries [] tree))"
proof -
  let ?es = "pattern_entries [] tree"
  have run: "extract_deprecated tree [] = Inr (entry_records ?es)"
    using extract_as_entries(1) [OF assms, of "[]"] by (simp add: dotted_path_def)
  have len: "length (entry_records ?es)
      = length (filter (\<lambda>(ancestors, name, info). is_mapping info) ?es)"
    by (rule length_entry_records)
  have "list_all2 (\<lambda>record (ancestors, name, info).
       \<exists>attrs. info = JObj attrs \<and> record = rule_record name (dotted_path ancestors) attrs)
     (entry_records ?es) (filter (\<lambda>(ancestors, name, info). is_mapping info) ?es)"
    by (rule entry_records_all2)
  then have all2: "list_all2 (\<lambda>record (ancestors, name, info).
         \<exists>attrs. info = JObj attrs \<and> record = rule_record name (dotted_path ancestors) attrs \<and>
           (''category'' \<notin> fst ` set attrs \<longrightarrow>
              map_of record ''category'' = Some (JStr (dotted_path ancestors))) \<and>
           ([] \<notin> set ancestors \<longrightarrow> dotted_path ancestors = py_join ''.'' ancestors))
     (entry_records ?es) (filter (\<lambda>(ancestors, name, info). is_mapping info) ?es)"
    by (rule list_all2_mono) (auto simp: rule_record_category dotted_path_join)
  from run len all2 show ?thesis by blast
qed

theorem C2_flattener_count_witness:
  "patterns_ok (JObj [(''deprecatedPatterns'', JObj [(''a'', JObj [(''pattern'', JStr ''x'')])]),
      (''rust'', JObj [(''deprecatedPatterns'', JObj [(''b'', JObj []), (''c'', JStr ''skip'')]),
         (''x'', JObj [(''y'', JObj [(''deprecatedPatterns'', JObj [(''d'', JObj [])])])])])]) \<and>
   (\<exists>records. extract_deprecated (JObj [(''deprecatedPatterns'', JObj [(''a'', JObj [(''pattern'', JStr ''x'')])]),
      (''rust'', JObj [(''deprecatedPatterns'', JObj [(''b'', JObj []), (''c'', JStr ''skip'')]),
         (''x'', JObj [(''y'', JObj [(''deprecatedPatterns'', JObj [(''d'', JObj [])])])])])]) [] = Inr records \<and>
      length records = 3)"
proof -
  let ?t = "JObj [(''deprecatedPatterns'', JObj [(''a'', JObj [(''pattern'', JStr ''x'')])]),
      (''rust'', JObj [(''deprecatedPatterns'', JObj [(''b'', JObj []), (''c'', JStr ''skip'')]),
         (''x'', JObj [(''y'', JObj [(''deprecatedPatterns'', JObj [(''d'', JObj [])])])])])]"
  have ok: "patterns_ok ?t" by (simp add: is_mapping_def)
  have n: "length (filter (\<lambda>(ancestors, name, info). is_mapping info) (pattern_entries [] ?t)) = 3"
    by (simp add: is_mapping_def)
  from C2_flattener_count [OF ok] n ok show ?thesis by metis
qed

subsection \<open>Entries that are not mappings\<close>

lemma pattern_records_filter:
  "pattern_records p (filter (\<lambda>(name, info). is_mapping info) patterns) = pattern_records p patterns"
proof (induction patterns)
  case Nil
  then show ?case by simp
next
  case (Cons e patterns)
  obtain n i where e: "e = (n, i)" by (cases e)
  show ?case using Cons e by (cases i) (simp_all add: is_mapping_def)
qed

lemma pattern_records_skip:
  "\<not> is_mapping info \<Longrightarrow>
     pattern_records p (before @ (name, info) # after) = pattern_records p (before @ after)"
  by (induction before) (auto simp: is_mapping_def split: json.splits)

lemma map_of_prune_items:
  "map_of (prune_items data) ''deprecatedPatterns'' =
     (case map_of data ''deprecatedPatterns'' of
        None \<Rightarrow> None
      | Some (JObj patterns) \<Rightarrow> Some (JObj (filter (\<lambda>(name, info). is_mapping info) patterns))
      | Some v \<Rightarrow> Some v)"
  by (induction data) (auto split: json.splits)

lemma extract_prune:
  "extract_deprecated (prune v) p = extract_deprecated v p"
  "extract_items (prune_items data) p = extract_items data p"
proof (induction v and data arbitrary: p and p rule: prune_prune_items.induct)
  case (1 data)
  then show ?case
    by (simp add: map_of_prune_items pattern_records_filter split: option.splits json.splits)
qed simp_all

text \<open>
  C10: an entry of a \<^verbatim>\<open>deprecatedPatterns\<close> map whose value is not a mapping
  gives no record and no failure. The loop over the entries gives the same records with
  the entry as without it, a map that holds only such an entry gives the empty list, and
  the rule tree without all such entries gives the same records and, on every content,
  the same findings as the tree with them.
\<close>

theorem C10_non_mapping_entry_skipped:
  "(\<not> is_mapping info \<longrightarrow>
      pattern_records category_path (before @ (name, info) # after)
        = pattern_records category_path (before @ after) \<and>
      extract_deprecated (JObj [(''deprecatedPatterns'', JObj [(name, info)])]) category_path = Inr []) \<and>
   extract_deprecated (prune tree) category_path = extract_deprecated tree category_path \<and>
   check_deprecated_patterns content file_path [(''intelligence'', prune tree)]
     = check_deprecated_patterns content file_path [(''intelligence'', tree)]"
proof -
  have a: "\<not> is_mapping info \<Longrightarrow>
      pattern_records category_path (before @ (name, info) # after)
        = pattern_records category_path (before @ after)"
    by (rule pattern_records_skip)
  have b: "\<not> is_mapping info \<Longrightarrow>
      extract_deprecated (JObj [(''deprecatedPatterns'', JObj [(name, info)])]) category_path = Inr []"
    by (cases info) (simp_all add: is_mapping_def)
  have c: "extract_deprecated (prune tree) category_path = extract_deprecated tree category_path"
    by (rule extract_prune)
  have d: "check_deprecated_patterns content file_path [(''intelligence'', prune tree)]
     = check_deprecated_patterns content file_path [(''intelligence'', tree)]"
    by (simp add: check_deprecated_patterns_def dict_has_def dict_get_def extract_prune)
  from a b c d show ?thesis by blast
qed

theorem C10_non_mapping_entry_skipped_witness:
  "\<not> is_mapping (JStr ''checkOnSave'') \<and>
   pattern_records ''rust'' ([(''a'', JObj [])] @ (''b'', JStr ''checkOnSave'') # [(''c'', JObj [])])
     = pattern_records ''rust'' ([(''a'', JObj [])] @ [(''c'', JObj [])]) \<and>
   extract_deprecated (JObj [(''deprecatedPatterns'', JObj [(''b'', JStr ''checkOnSave'')])]) ''rust'' = Inr []"
  using C10_non_mapping_entry_skipped [of "JStr ''checkOnSave''" "''rust''" "[(''a'', JObj [])]" "''b''"
      "[(''c'', JObj [])]" JNull "[]" "[]"]
  by (simp add: is_mapping_def)

subsection \<open>The matcher\<close>

lemma find_none_list_ex: "(find P xs = None) = (\<not> list_ex P xs)"
  by (auto simp: find_None_iff list_ex_iff)

lemma check_one_typed:
  assumes "rule_typed deprecated"
  shows "\<exists>ms. check_one content deprecated = Inr ms \<and>
           length ms = (if rule_hits content deprecated then 1 else 0)"
proof (cases "dict_get deprecated ''pattern'' (JStr [])")
  case (JStr p)
  from assms obtain sev name where sev: "dict_get deprecated ''severity'' (JStr ''warning'') = JStr sev"
    and name: "map_of deprecated ''name'' = Some name"
    by (auto simp: rule_typed_def dict_has_def split: json.splits)
  show ?thesis
  proof (cases "p = []")
    case True
    with JStr show ?thesis by (simp add: check_one_def rule_hits_def)
  next
    case nonempty: False
    show ?thesis
    proof (cases "find (\<lambda>search. str_contains search content) (search_patterns p)")
      case None
      then have "\<not> list_ex (\<lambda>search. str_contains search content) (search_patterns p)"
        by (simp add: find_none_list_ex)
      with None JStr nonempty show ?thesis
        by (simp add: check_one_def rule_hits_def)
    next
      case (Some search)
      then have "list_ex (\<lambda>search. str_contains search content) (search_patterns p)"
        using find_none_list_ex [of "\<lambda>search. str_contains search content" "search_patterns p"]
        by simp
      with Some JStr sev name nonempty show ?thesis
        by (simp add: check_one_def rule_hits_def finding_def Let_def)
    qed
  qed
qed (use assms in \<open>auto simp: rule_typed_def check_one_def rule_hits_def\<close>)

lemma check_all_typed:
  "list_all rule_typed records \<Longrightarrow>
     \<exists>errors. check_all content records = Inr errors \<and>
       length errors = length (filter (rule_hits content) records)"
proof (induction records)
  case Nil
  then show ?case by simp
next
  case (Cons r records)
  then obtain ms where ms: "check_one content r = Inr ms"
      "length ms = (if rule_hits content r then 1 else 0)"
    using check_one_typed [of r content] by auto
  from Cons obtain errors where errors: "check_all content records = Inr errors"
      "length errors = length (filter (rule_hits content) records)"
    by auto
  from ms errors show ?case by simp
qed


lemma rule_record_has_name: "dict_has (rule_record name category_path attrs) ''name''"
proof -
  have "\<And>base. map_of base ''name'' \<noteq> None \<Longrightarrow>
      map_of (fold (\<lambda>(k, v). AList.update k v) attrs base) ''name'' \<noteq> None"
    by (induction attrs) (auto simp: update_conv')
  then show ?thesis by (simp add: rule_record_def dict_has_def)
qed

text \<open>
  C1 as stated fails: the \<^verbatim>\<open>break\<close> of line 115 leaves the loop over the search
  variants of one rule, not the loop over the rules. With two rules whose patterns both
  occur in the content, the matcher reports two findings.
\<close>

theorem C1_counterexample:
  "check_deprecated_patterns ''foo bar'' [''.devcontainer'', ''devcontainer.json'']
     [(''intelligence'', JObj [(''deprecatedPatterns'',
        JObj [(''a'', JObj [(''pattern'', JStr ''foo'')]),
              (''b'', JObj [(''pattern'', JStr ''bar'')])])])]
   = Inr [''[WARNING] Deprecated pattern found: a\<newline>    Found: foo...\<newline>    Replace with: See documentation'',
          ''[WARNING] Deprecated pattern found: b\<newline>    Found: bar...\<newline>    Replace with: See documentation'']"
  by (simp add: check_deprecated_patterns_def dict_has_def dict_get_def rule_record_def
      check_one_def search_patterns_def finding_def py_upper_def small_letters_def
      capital_letters_def py_str_def)

text \<open>
  C1, amended: for every loaded rule set whose flattening succeeds and whose records are
  well typed, and for every file content, the matcher reports exactly one finding for each
  rule record one of whose search variants is a substring of the content, and none for the
  other records: it stops at the first matching variant of a rule and goes on with the
  next rule, so the number of findings is the number of matching rules.
\<close>

theorem C1_one_finding_per_matching_rule:
  assumes "dict_has intelligence ''intelligence''"
    and "extract_deprecated (dict_get intelligence ''intelligence'' (JObj [])) [] = Inr records"
    and "list_all rule_typed records"
  shows "(\<exists>errors. check_deprecated_patterns content file_path intelligence = Inr errors \<and>
            length errors = length (filter (rule_hits content) records)) \<and>
         (\<forall>deprecated \<in> set records. \<exists>ms. check_one content deprecated = Inr ms \<and>
            length ms = (if rule_hits content deprecated then 1 else 0))"
proof
  from assms(1) have "intelligence \<noteq> []" by (auto simp: dict_has_def)
  with assms(1,2) have "check_deprecated_patterns content file_path intelligence
      = check_all content records"
    by (simp add: check_deprecated_patterns_def)
  with check_all_typed [OF assms(3), of content]
  show "\<exists>errors. check_deprecated_patterns content file_path intelligence = Inr errors \<and>
            length errors = length (filter (rule_hits content) records)"
    by simp
next
  show "\<forall>deprecated \<in> set records. \<exists>ms. check_one content deprecated = Inr ms \<and>
            length ms = (if rule_hits content deprecated then 1 else 0)"
    using assms(3) check_one_typed by (auto simp: list_all_iff)
qed

theorem C1_one_finding_per_matching_rule_witness:
  "\<exists>errors. check_deprecated_patterns ''only foo here'' [''devcontainer.json'']
       [(''intelligence'', JObj [(''deprecatedPatterns'',
          JObj [(''a'', JObj [(''pattern'', JStr ''foo'')]),
                (''b'', JObj [(''pattern'', JStr ''bar'')])])])] = Inr errors \<and>
     length errors = 1"
proof -
  let ?i = "[(''intelligence'', JObj [(''deprecatedPatterns'',
          JObj [(''a'', JObj [(''pattern'', JStr ''foo'')]),
                (''b'', JObj [(''pattern'', JStr ''bar'')])])])]"
  let ?rs = "[[(''name'', JStr ''a''), (''category'', JStr []), (''pattern'', JStr ''foo'')],
              [(''name'', JStr ''b''), (''category'', JStr []), (''pattern'', JStr ''bar'')]]"
  have h1: "dict_has ?i ''intelligence''" by (simp add: dict_has_def)
  have h2: "extract_deprecated (dict_get ?i ''intelligence'' (JObj [])) [] = Inr ?rs"
    by (simp add: dict_get_def rule_record_def)
  have h3: "list_all rule_typed ?rs"
    by (simp add: rule_typed_def dict_get_def dict_has_def)
  have n: "length (filter (rule_hits ''only foo here'') ?rs) = 1"
    by (simp add: rule_hits_def dict_get_def search_patterns_def)
  from C1_one_finding_per_matching_rule [OF h1 h2 h3, of "''only foo here''" "[''devcontainer.json'']"] n
  show ?thesis by simp
qed

subsection \<open>The driver\<close>

text \<open>
  C3 fails on the code for the Tailwind and ESLint loops. The message of an unreadable
  Tailwind config holds neither marker; the devcontainer loop counts such a message as an
  error, the loops of lines 361-367 and 382-388 count it as a warning, and a scan whose
  only file is an unreadable Tailwind config ends with no error and status 0.
\<close>

theorem C3_unmarked_message_counted_as_warning:
  "validate_tailwind_config (ReadError ''[Errno 13] Permission denied'') []
     = [''Error reading Tailwind config: [Errno 13] Permission denied''] \<and>
   \<not> str_contains ''[ERROR]'' ''Error reading Tailwind config: [Errno 13] Permission denied'' \<and>
   \<not> str_contains ''[WARNING]'' ''Error reading Tailwind config: [Errno 13] Permission denied'' \<and>
   tally_devcontainer ''Error reading Tailwind config: [Errno 13] Permission denied''
       \<lparr>total_errors = 0, total_warnings = 0, total_validated = 0\<rparr>
     = \<lparr>total_errors = 1, total_warnings = 0, total_validated = 0\<rparr> \<and>
   tally_tailwind ''Error reading Tailwind config: [Errno 13] Permission denied''
       \<lparr>total_errors = 0, total_warnings = 0, total_validated = 0\<rparr>
     = \<lparr>total_errors = 0, total_warnings = 1, total_validated = 0\<rparr> \<and>
   tally_eslint ''Error reading Tailwind config: [Errno 13] Permission denied''
       \<lparr>total_errors = 0, total_warnings = 0, total_validated = 0\<rparr>
     = \<lparr>total_errors = 0, total_warnings = 1, total_validated = 0\<rparr> \<and>
   main \<lparr>project_root = [''/'', ''repo''], rules = Absent, devcontainer_found = [],
     tailwind_found = [[''/'', ''repo'', ''tailwind.config.js'']], eslint_found = [],
     load_file = (\<lambda>file. OtherError []),
     read_file = (\<lambda>file. ReadError ''[Errno 13] Permission denied'')\<rparr>
   = Inr (0, \<lparr>total_errors = 0, total_warnings = 1, total_validated = 0\<rparr>)"
  by (simp add: main_def find_config_files_def scan_tailwind_def validate_tailwind_config_def
      tally_tailwind_def tally_devcontainer_def tally_eslint_def exit_status_def path_str_def
      py_join_def)

text \<open>
  C7 fails on the code for the second open of a devcontainer file. A failure of the first
  open is caught in \<open>validate_json_file\<close> and counted as one error; the open of line
  325 is outside any handler, and when it fails the exception leaves \<open>main\<close>: the scan
  of the remaining files does not happen and no summary is printed.
\<close>

theorem C7_raw_read_failure_leaves_main:
  "scan_devcontainer
     \<lparr>project_root = [''/'', ''repo''], rules = Absent,
       devcontainer_found = [[''/'', ''repo'', ''.devcontainer'', ''devcontainer.json'']],
       tailwind_found = [], eslint_found = [],
       load_file = (\<lambda>file. OtherError ''[Errno 13] Permission denied''),
       read_file = (\<lambda>file. ReadError ''[Errno 13] Permission denied'')\<rparr>
     [] [''/'', ''repo'', ''.devcontainer'', ''devcontainer.json'']
     \<lparr>total_errors = 0, total_warnings = 0, total_validated = 0\<rparr>
   = Inr \<lparr>total_errors = 1, total_warnings = 0, total_validated = 0\<rparr> \<and>
   main \<lparr>project_root = [''/'', ''repo''], rules = Absent,
     devcontainer_found = [[''/'', ''repo'', ''.devcontainer'', ''devcontainer.json'']],
     tailwind_found = [[''/'', ''repo'', ''tailwind.config.js'']], eslint_found = [],
     load_file = (\<lambda>file. Loaded (JObj [(''name'', JStr ''x''), (''image'', JStr ''ubuntu:22.04'')])),
     read_file = (\<lambda>file. ReadError ''[Errno 2] No such file or directory'')\<rparr>
   = Inl (OSError ''[Errno 2] No such file or directory'')"
  by (simp add: main_def find_config_files_def scan_devcontainer_def validate_json_file_def
      validate_devcontainer_structure_dict REQUIRED_DEVCONTAINER_FIELDS_def dict_has_def
      name_errors_def image_errors_def customizations_errors_def py_strip_def py_isspace_def
      path_str_def py_join_def)

subsection \<open>The exit status\<close>

lemma tally_devcontainer_errors: "total_errors s \<le> total_errors (tally_devcontainer m s)"
  by (simp add: tally_devcontainer_def)

lemma tally_tailwind_errors: "total_errors s \<le> total_errors (tally_tailwind m s)"
  by (simp add: tally_tailwind_def)

lemma tally_eslint_errors: "total_errors s \<le> total_errors (tally_eslint m s)"
  by (simp add: tally_eslint_def)

lemma fold_tally_errors:
  "(\<And>m s. total_errors s \<le> total_errors (f m s)) \<Longrightarrow> total_errors s \<le> total_errors (fold f ms s)"
proof (induction ms arbitrary: s)
  case Nil
  then show ?case by simp
next
  case (Cons m ms)
  have "total_errors s \<le> total_errors (f m s)" by (rule Cons.prems)
  also have "\<dots> \<le> total_errors (fold f ms (f m s))" using Cons.prems by (rule Cons.IH)
  finally show ?case by simp
qed

lemma fold_tally_tailwind_marked:
  "m \<in> set ms \<Longrightarrow> str_contains ''[ERROR]'' m \<Longrightarrow>
     total_errors s < total_errors (fold tally_tailwind ms s)"
proof (induction ms arbitrary: s)
  case Nil
  then show ?case by simp
next
  case (Cons x ms)
  show ?case
  proof (cases "x = m")
    case True
    with Cons.prems have "total_errors s < total_errors (tally_tailwind x s)"
      by (simp add: tally_tailwind_def)
    also have "\<dots> \<le> total_errors (fold tally_tailwind ms (tally_tailwind x s))"
      by (rule fold_tally_errors) (rule tally_tailwind_errors)
    finally show ?thesis by simp
  next
    case False
    with Cons.prems have "m \<in> set ms" by simp
    then have "total_errors (tally_tailwind x s) < total_errors (fold tally_tailwind ms (tally_tailwind x s))"
      using Cons.prems(2) by (rule Cons.IH)
    with tally_tailwind_errors [of s x] show ?thesis by simp
  qed
qed

lemma scan_devcontainer_errors:
  "scan_devcontainer pr intelligence file s = Inr s' \<Longrightarrow> total_errors s \<le> total_errors s'"
  by (auto simp: scan_devcontainer_def bind_err_def Let_def fold_tally_errors tally_devcontainer_errors
      simp del: fold_append
      split: prod.splits bool.splits option.splits sum.splits read_result.splits if_splits)

lemma scan_tailwind_errors:
  "scan_tailwind pr intelligence file s = Inr s' \<Longrightarrow> total_errors s \<le> total_errors s'"
  by (auto simp: scan_tailwind_def Let_def fold_tally_errors tally_tailwind_errors split: if_splits)

lemma scan_eslint_errors:
  "scan_eslint pr intelligence file s = Inr s' \<Longrightarrow> total_errors s \<le> total_errors s'"
  by (auto simp: scan_eslint_def Let_def fold_tally_errors tally_eslint_errors split: if_splits)

lemma for_each_errors:
  assumes "\<And>x s s'. body x s = Inr s' \<Longrightarrow> total_errors s \<le> total_errors s'"
  shows "for_each body xs s = Inr s' \<Longrightarrow> total_errors s \<le> total_errors s'"
proof (induction xs arbitrary: s)
  case Nil
  then show ?case by simp
next
  case (Cons x xs)
  then obtain t where t: "body x s = Inr t" "for_each body xs t = Inr s'"
    by (auto simp: bind_err_def split: sum.splits)
  from t(1) have "total_errors s \<le> total_errors t" by (rule assms)
  also from t(2) have "\<dots> \<le> total_errors s'" by (rule Cons.IH)
  finally show ?case .
qed

lemma for_each_strict:
  assumes mono: "\<And>x s s'. body x s = Inr s' \<Longrightarrow> total_errors s \<le> total_errors s'"
    and strict: "\<And>s s'. body f s = Inr s' \<Longrightarrow> total_errors s < total_errors s'"
  shows "f \<in> set xs \<Longrightarrow> for_each body xs s = Inr s' \<Longrightarrow> total_errors s < total_errors s'"
proof (induction xs arbitrary: s)
  case Nil
  then show ?case by simp
next
  case (Cons x xs)
  from Cons.prems(2) obtain t where t: "body x s = Inr t" "for_each body xs t = Inr s'"
    by (auto simp: bind_err_def split: sum.splits)
  show ?case
  proof (cases "x = f")
    case True
    with t(1) have "total_errors s < total_errors t" by (simp add: strict)
    also have "\<dots> \<le> total_errors s'" using mono t(2) by (rule for_each_errors)
    finally show ?thesis .
  next
    case False
    with Cons.prems(1) have "f \<in> set xs" by simp
    then have "total_errors t < total_errors s'" using t(2) by (rule Cons.IH)
    with mono [OF t(1)] show ?thesis by simp
  qed
qed


lemma main_steps:
  assumes "main pr = Inr (status, s)"
  shows "\<exists>intelligence s0 s1 s2.
      for_each (scan_devcontainer pr intelligence) (devcontainer (find_config_files pr)) s0 = Inr s1 \<and>
      for_each (scan_tailwind pr intelligence) (tailwind (find_config_files pr)) s1 = Inr s2 \<and>
      for_each (scan_eslint pr intelligence) (eslint (find_config_files pr)) s2 = Inr s \<and>
      status = exit_status s"
  using assms by (auto simp: main_def Let_def bind_err_def split: sum.splits)

lemma purge_one_error:
  "str_contains ''purge:'' content \<Longrightarrow>
     filter (str_contains ''[ERROR]'') (validate_tailwind_config (ReadOk content) intelligence)
       = [purge_message]"
  by (simp add: validate_tailwind_config_def purge_message_def tailwind3_message_def)

lemma scan_tailwind_purge:
  assumes "read_file pr file = ReadOk content" and "str_contains ''purge:'' content"
    and "scan_tailwind pr intelligence file s = Inr s'"
  shows "total_errors s < total_errors s'"
proof -
  let ?errors = "validate_tailwind_config (read_file pr file) intelligence"
  from assms(1,2) have "purge_message \<in> set (filter (str_contains ''[ERROR]'') ?errors)"
    by (simp only: purge_one_error) simp
  then have m: "purge_message \<in> set ?errors" and e: "str_contains ''[ERROR]'' purge_message"
    by auto
  then have "?errors \<noteq> []" by auto
  with assms(3) have "s' = fold tally_tailwind ?errors s"
    by (simp add: scan_tailwind_def Let_def)
  with fold_tally_tailwind_marked [OF m e] show ?thesis by simp
qed

text \<open>
  C4: when \<open>main\<close> reaches \<^verbatim>\<open>sys.exit\<close>, the status is 0 if the error counter
  is zero and 1 otherwise, whatever the warning counter holds. A readable Tailwind config
  that contains \<^verbatim>\<open>purge:\<close> gives exactly one message with the marker
  \<^verbatim>\<open>[ERROR]\<close>, and every scan that reaches its end with such a file among the
  Tailwind configs found ends with status 1.
\<close>

theorem C4_exit_status:
  "(main pr = Inr (status, s) \<longrightarrow>
      (status = 0 \<longleftrightarrow> total_errors s = 0) \<and> (status = 0 \<or> status = 1) \<and>
      exit_status (s\<lparr>total_warnings := w\<rparr>) = status) \<and>
   (str_contains ''purge:'' content \<longrightarrow>
      filter (str_contains ''[ERROR]'') (validate_tailwind_config (ReadOk content) intelligence)
        = [purge_message] \<and>
      (main pr = Inr (status, s) \<and> file \<in> set (tailwind (find_config_files pr)) \<and>
       read_file pr file = ReadOk content \<longrightarrow> status = 1))"
proof (intro conjI impI)
  assume run: "main pr = Inr (status, s)"
  then have st: "status = exit_status s" using main_steps by blast
  show "(status = 0) = (total_errors s = 0)" using st by (simp add: exit_status_def)
  show "status = 0 \<or> status = 1" using st by (simp add: exit_status_def)
  show "exit_status (s\<lparr>total_warnings := w\<rparr>) = status" using st by (simp add: exit_status_def)
next
  assume "str_contains ''purge:'' content"
  then show "filter (str_contains ''[ERROR]'') (validate_tailwind_config (ReadOk content) intelligence)
        = [purge_message]"
    by (rule purge_one_error)
next
  assume purge: "str_contains ''purge:'' content"
    and h: "main pr = Inr (status, s) \<and> file \<in> set (tailwind (find_config_files pr)) \<and>
       read_file pr file = ReadOk content"
  from h obtain intelligence s0 s1 s2 where
      tw: "for_each (scan_tailwind pr intelligence) (tailwind (find_config_files pr)) s1 = Inr s2"
      and es: "for_each (scan_eslint pr intelligence) (eslint (find_config_files pr)) s2 = Inr s"
      and st: "status = exit_status s"
    using main_steps by blast
  have "total_errors s1 < total_errors s2"
  proof (rule for_each_strict [where body = "scan_tailwind pr intelligence" and f = "file"])
    show "\<And>x s s'. scan_tailwind pr intelligence x s = Inr s' \<Longrightarrow> total_errors s \<le> total_errors s'"
      by (rule scan_tailwind_errors)
    show "\<And>s s'. scan_tailwind pr intelligence file s = Inr s' \<Longrightarrow> total_errors s < total_errors s'"
      using h purge by (blast intro: scan_tailwind_purge)
    show "file \<in> set (tailwind (find_config_files pr))" using h by simp
    show "for_each (scan_tailwind pr intelligence) (tailwind (find_config_files pr)) s1 = Inr s2"
      by (rule tw)
  qed
  also have "\<dots> \<le> total_errors s"
    using scan_eslint_errors es by (rule for_each_errors)
  finally have "total_errors s \<noteq> 0" by simp
  with st show "status = 1" by (simp add: exit_status_def)
qed

theorem C4_exit_status_witness:
  "main \<lparr>project_root = [''/'', ''repo''], rules = Absent, devcontainer_found = [],
     tailwind_found = [[''/'', ''repo'', ''tailwind.config.js'']], eslint_found = [],
     load_file = (\<lambda>file. OtherError []),
     read_file = (\<lambda>file. ReadOk ''module.exports = { purge: [], theme: {} }'')\<rparr>
   = Inr (1, \<lparr>total_errors = 1, total_warnings = 1, total_validated = 0\<rparr>) \<and>
   str_contains ''purge:'' ''module.exports = { purge: [], theme: {} }'' \<and>
   filter (str_contains ''[ERROR]'')
     (validate_tailwind_config (ReadOk ''module.exports = { purge: [], theme: {} }'') [])
   = [purge_message] \<and>
   exit_status \<lparr>total_errors = 1, total_warnings = 7, total_validated = 0\<rparr> = 1"
proof -
  let ?pr = "\<lparr>project_root = [''/'', ''repo''], rules = Absent, devcontainer_found = [],
     tailwind_found = [[''/'', ''repo'', ''tailwind.config.js'']], eslint_found = [],
     load_file = (\<lambda>file. OtherError []),
     read_file = (\<lambda>file. ReadOk ''module.exports = { purge: [], theme: {} }'')\<rparr>"
  let ?s = "\<lparr>total_errors = 1, total_warnings = 1, total_validated = 0\<rparr>"
  have run: "main ?pr = Inr (1, ?s)"
    by (simp add: main_def find_config_files_def scan_tailwind_def validate_tailwind_config_def
        tally_tailwind_def exit_status_def path_str_def py_join_def purge_message_def
        tailwind3_message_def)
  have purge: "str_contains ''purge:'' ''module.exports = { purge: [], theme: {} }''"
    by simp
  from C4_exit_status [of ?pr 1 ?s 7 "''module.exports = { purge: [], theme: {} }''" "[]"
      "[''/'', ''repo'', ''tailwind.config.js'']"] run purge
  show ?thesis by simp
qed

subsection \<open>A scan without rules\<close>












subsection \<open>Two scans of the same tree\<close>

lemma sort_remdups_set: "set xs = set ys \<Longrightarrow> sort (remdups xs) = sort (remdups ys)"
  by (simp flip: sorted_list_of_set_sort_remdups)

lemma sort_remdups_filter_set:
  "set xs = set ys \<Longrightarrow> sort (remdups (filter P xs)) = sort (remdups (filter P ys))"
  by (rule sort_remdups_set) simp

text \<open>
  C9: the script keeps nothing from one run to the next and writes no file, so a run is a
  function of the project it scans. Two scans of a tree in which the rules file, the
  paths that the glob patterns match and what each file yields are the same give the same
  outcome, hence the same three counters, also when the file system lists the matching
  paths in another order or with other repetitions: \<open>find_config_files\<close> sorts the
  set of the paths.
\<close>

theorem C9_same_tree_same_summary:
  assumes "project_root pr' = project_root pr" and "rules pr' = rules pr"
    and "load_file pr' = load_file pr" and "read_file pr' = read_file pr"
    and "set (devcontainer_found pr') = set (devcontainer_found pr)"
    and "set (tailwind_found pr') = set (tailwind_found pr)"
    and "set (eslint_found pr') = set (eslint_found pr)"
  shows "main pr' = main pr"
proof -
  have files: "find_config_files pr' = find_config_files pr"
    unfolding find_config_files_def
    using sort_remdups_filter_set [OF assms(5)] sort_remdups_filter_set [OF assms(6)]
      sort_remdups_set [OF assms(7)]
    by simp
  have dc: "scan_devcontainer pr' = scan_devcontainer pr"
    by (intro ext) (unfold scan_devcontainer_def assms(3,4), rule refl)
  have tw: "scan_tailwind pr' = scan_tailwind pr"
    by (intro ext) (unfold scan_tailwind_def assms(4), rule refl)
  have es: "scan_eslint pr' = scan_eslint pr"
    by (intro ext) (unfold scan_eslint_def, rule refl)
  show ?thesis
    by (simp add: main_def files dc tw es assms(1,2))
qed

theorem C9_same_tree_same_summary_witness:
  "main \<lparr>project_root = [''/'', ''repo''], rules = Absent, devcontainer_found = [],
     tailwind_found = [[''/'', ''repo'', ''web'', ''tailwind.config.js''],
        [''/'', ''repo'', ''tailwind.config.js''], [''/'', ''repo'', ''web'', ''tailwind.config.js'']],
     eslint_found = [[''/'', ''repo'', ''.eslintrc.json'']],
     load_file = (\<lambda>file. OtherError []), read_file = (\<lambda>file. ReadOk ''purge: []'')\<rparr>
   = main \<lparr>project_root = [''/'', ''repo''], rules = Absent, devcontainer_found = [],
     tailwind_found = [[''/'', ''repo'', ''tailwind.config.js''],
        [''/'', ''repo'', ''web'', ''tailwind.config.js'']],
     eslint_found = [[''/'', ''repo'', ''.eslintrc.json'']],
     load_file = (\<lambda>file. OtherError []), read_file = (\<lambda>file. ReadOk ''purge: []'')\<rparr> \<and>
   main \<lparr>project_root = [''/'', ''repo''], rules = Absent, devcontainer_found = [],
     tailwind_found = [[''/'', ''repo'', ''tailwind.config.js''],
        [''/'', ''repo'', ''web'', ''tailwind.config.js'']],
     eslint_found = [[''/'', ''repo'', ''.eslintrc.json'']],
     load_file = (\<lambda>file. OtherError []), read_file = (\<lambda>file. ReadOk ''purge: []'')\<rparr>
   = Inr (1, \<lparr>total_errors = 2, total_warnings = 1, total_validated = 0\<rparr>)"
proof
  show "main \<lparr>project_root = [''/'', ''repo''], rules = Absent, devcontainer_found = [],
     tailwind_found = [[''/'', ''repo'', ''web'', ''tailwind.config.js''],
        [''/'', ''repo'', ''tailwind.config.js''], [''/'', ''repo'', ''web'', ''tailwind.config.js'']],
     eslint_found = [[''/'', ''repo'', ''.eslintrc.json'']],
     load_file = (\<lambda>file. OtherError []), read_file = (\<lambda>file. ReadOk ''purge: []'')\<rparr>
   = main \<lparr>project_root = [''/'', ''repo''], rules = Absent, devcontainer_found = [],
     tailwind_found = [[''/'', ''repo'', ''tailwind.config.js''],
        [''/'', ''repo'', ''web'', ''tailwind.config.js'']],
     eslint_found = [[''/'', ''repo'', ''.eslintrc.json'']],
     load_file = (\<lambda>file. OtherError []), read_file = (\<lambda>file. ReadOk ''purge: []'')\<rparr>"
    by (rule C9_same_tree_same_summary) auto
  show "main \<lparr>project_root = [''/'', ''repo''], rules = Absent, devcontainer_found = [],
     tailwind_found = [[''/'', ''repo'', ''tailwind.config.js''],
        [''/'', ''repo'', ''web'', ''tailwind.config.js'']],
     eslint_found = [[''/'', ''repo'', ''.eslintrc.json'']],
     load_file = (\<lambda>file. OtherError []), read_file = (\<lambda>file. ReadOk ''purge: []'')\<rparr>
   = Inr (1, \<lparr>total_errors = 2, total_warnings = 1, total_validated = 0\<rparr>)"
    by (simp add: main_def find_config_files_def scan_tailwind_def scan_eslint_def
        validate_tailwind_config_def validate_eslint_config_def legacy_files_def path_name_def
        tally_tailwind_def tally_eslint_def exit_status_def path_str_def py_join_def
        purge_message_def)
qed

subsection \<open>The rules file absent or malformed\<close>













end
